theory Spec2Isabelle
  imports Main
begin

section \<open>JavaScript values\<close>

text \<open>
  The configuration document reaches the worker as text and is read with \<open>JSON.parse\<close>;
  nothing checks its shape afterwards, so the fields of the parsed configuration hold
  arbitrary JSON values.  A number is held as the decimal text that JavaScript's number to
  string conversion gives it (\<open>''0''\<close> for zero, a leading \<open>-\<close> for a negative number):
  the worker only tests numbers for truthiness, compares a \<open>length\<close> with 0 and 1, and
  concatenates them into strings.  A string is the sequence of its code units.  An object is
  the list of its own properties, read with \<open>map_of\<close>.  The value \<open>undefined\<close> is the
  \<open>None\<close> of \<open>json option\<close>.

  Converting a value to a string, as string concatenation and template literals do, can
  throw: an object parsed from JSON that has a property \<open>toString\<close> of its own hides
  the inherited method behind a value that cannot be called, and the inherited
  \<open>valueOf\<close> gives back the object, so no primitive is found and the conversion
  throws a \<open>TypeError\<close>.  An array converts by joining the conversions of its elements
  with commas (\<open>null\<close> as the empty string), and throws when one of them does.  Every
  concatenation of the source that involves a value of the configuration is therefore a
  step of the model that may fail, those in log messages included: their arguments are
  evaluated whatever the log level.
\<close>

datatype json =
    JNull
  | JBool bool
  | JNum string
  | JStr string
  | JArr "json list"
  | JObj "(string \<times> json) list"

datatype error = SyntaxError | TypeError | NetworkError

text \<open>
  What the JavaScript runtime provides and the repository does not define: the JSON parser
  (\<open>None\<close> when it throws) and whether the number a string converts to is positive.
\<close>

record js_runtime =
  JSON_parse :: "string \<Rightarrow> json option"
  StringToNumber_positive :: "string \<Rightarrow> bool"

fun truthy :: "json \<Rightarrow> bool" where
  "truthy JNull = False"
| "truthy (JBool b) = b"
| "truthy (JNum n) = (n \<noteq> ''0'')"
| "truthy (JStr s) = (s \<noteq> [])"
| "truthy (JArr xs) = True"
| "truthy (JObj kvs) = True"

fun typeof_object :: "json \<Rightarrow> bool" where
  "typeof_object JNull = True"
| "typeof_object (JArr xs) = True"
| "typeof_object (JObj kvs) = True"
| "typeof_object v = False"

text \<open>
  Reading one of the properties \<open>jpds\<close>, \<open>action\<close>, \<open>url\<close>, \<open>repos\<close>, \<open>name\<close>,
  \<open>paths\<close>: none of them is a built-in property of an array, a string, a number or a
  boolean, so only an object can have it; reading a property of \<open>null\<close> throws.
\<close>

fun get_property :: "json \<Rightarrow> string \<Rightarrow> error + json option" where
  "get_property JNull k = Inl TypeError"
| "get_property (JObj kvs) k = Inr (map_of kvs k)"
| "get_property v k = Inr None"

fun join_with :: "string \<Rightarrow> string list \<Rightarrow> string" where
  "join_with sep [] = []"
| "join_with sep [s] = s"
| "join_with sep (s # t # ts) = s @ sep @ join_with sep (t # ts)"

fun ToString :: "json \<Rightarrow> error + string"
  and ToString_elements :: "json list \<Rightarrow> error + string list" where
  "ToString JNull = Inr ''null''"
| "ToString (JBool b) = Inr (if b then ''true'' else ''false'')"
| "ToString (JNum n) = Inr n"
| "ToString (JStr s) = Inr s"
| "ToString (JArr xs) =
     (case ToString_elements xs of
        Inl e \<Rightarrow> Inl e
      | Inr ss \<Rightarrow> Inr (join_with '','' ss))"
| "ToString (JObj kvs) =
     (case map_of kvs ''toString'' of
        None \<Rightarrow> Inr ''[object Object]''
      | Some f \<Rightarrow> Inl TypeError)"
| "ToString_elements [] = Inr []"
| "ToString_elements (x # xs) =
     (case (if x = JNull then Inr [] else ToString x) of
        Inl e \<Rightarrow> Inl e
      | Inr s \<Rightarrow>
          (case ToString_elements xs of
             Inl e \<Rightarrow> Inl e
           | Inr ss \<Rightarrow> Inr (s # ss)))"

fun ToString_opt :: "json option \<Rightarrow> error + string" where
  "ToString_opt None = Inr ''undefined''"
| "ToString_opt (Some v) = ToString v"

text \<open>
  The comparison \<open>v > 0\<close> of a property value with the number 0.  An object converts
  to a primitive as above, and its text \<open>[object Object]\<close> is no number.
\<close>

fun greater_than_zero :: "js_runtime \<Rightarrow> json \<Rightarrow> error + bool" where
  "greater_than_zero rt JNull = Inr False"
| "greater_than_zero rt (JBool b) = Inr b"
| "greater_than_zero rt (JNum n) = Inr (n \<noteq> ''0'' \<and> take 1 n \<noteq> ''-'')"
| "greater_than_zero rt (JStr s) = Inr (StringToNumber_positive rt s)"
| "greater_than_zero rt (JArr xs) =
     (case ToString (JArr xs) of
        Inl e \<Rightarrow> Inl e
      | Inr s \<Rightarrow> Inr (StringToNumber_positive rt s))"
| "greater_than_zero rt (JObj kvs) =
     (case map_of kvs ''toString'' of
        None \<Rightarrow> Inr False
      | Some f \<Rightarrow> Inl TypeError)"

definition startsWith :: "string \<Rightarrow> string \<Rightarrow> bool" where
  "startsWith s p = (take (length p) s = p)"

definition endsWith :: "string \<Rightarrow> string \<Rightarrow> bool" where
  "endsWith s p = (length p \<le> length s \<and> drop (length s - length p) s = p)"

fun split_slash :: "string \<Rightarrow> string list" where
  "split_slash [] = [[]]"
| "split_slash (c # cs) =
     (if c = CHR ''/'' then [] # split_slash cs
      else (case split_slash cs of
              [] \<Rightarrow> [[c]]
            | s # ss \<Rightarrow> (c # s) # ss))"

fun mapM :: "('a \<Rightarrow> error + 'b) \<Rightarrow> 'a list \<Rightarrow> error + 'b list" where
  "mapM f [] = Inr []"
| "mapM f (x # xs) =
     (case f x of
        Inl e \<Rightarrow> Inl e
      | Inr y \<Rightarrow> (case mapM f xs of Inl e \<Rightarrow> Inl e | Inr ys \<Rightarrow> Inr (y # ys)))"

section \<open>Paths of an upload\<close>

definition getFileNameFromPath :: "string \<Rightarrow> string" where
  "getFileNameFromPath fullPath =
     (if fullPath = [] then [] else last (split_slash fullPath))"

definition getDirectoryPathFromPath :: "string \<Rightarrow> string" where
  "getDirectoryPathFromPath fullPath =
     (if fullPath = [] then []
      else let segments = split_slash fullPath in
        if length segments \<le> 1 then []
        else join_with ''/'' (butlast segments))"

section \<open>The configuration\<close>

record RepoConfig =
  name :: json
  paths :: "json option"

record JPDConfig =
  url :: json
  repos :: "RepoConfig list"

record Config =
  jpds :: "JPDConfig list"
  action :: "json option"

definition normalize_repo :: "json \<Rightarrow> error + RepoConfig option" where
  "normalize_repo repo =
     (case repo of
        JStr s \<Rightarrow> Inr (Some \<lparr>name = JStr s, paths = None\<rparr>)
      | _ \<Rightarrow>
        if typeof_object repo then
          (case get_property repo ''name'' of
             Inl e \<Rightarrow> Inl e
           | Inr None \<Rightarrow> Inr None
           | Inr (Some n) \<Rightarrow>
               if truthy n then
                 (case get_property repo ''paths'' of
                    Inl e \<Rightarrow> Inl e
                  | Inr p \<Rightarrow> Inr (Some \<lparr>name = n, paths = p\<rparr>))
               else Inr None)
        else Inr None)"

definition normalize_jpd :: "json \<Rightarrow> error + JPDConfig option" where
  "normalize_jpd jpd =
     (if typeof_object jpd then
        (case get_property jpd ''url'' of
           Inl e \<Rightarrow> Inl e
         | Inr None \<Rightarrow> Inr None
         | Inr (Some u) \<Rightarrow>
             if truthy u then
               (case get_property jpd ''repos'' of
                  Inl e \<Rightarrow> Inl e
                | Inr (Some (JArr rs)) \<Rightarrow>
                    (case mapM normalize_repo rs of
                       Inl e \<Rightarrow> Inl e
                     | Inr cs \<Rightarrow> Inr (Some \<lparr>url = u, repos = List.map_filter (\<lambda>c. c) cs\<rparr>))
                | Inr _ \<Rightarrow> Inr None)
             else Inr None)
      else Inr None)"

definition default_config :: Config where
  "default_config = \<lparr>jpds = [], action = Some (JStr ''warn'')\<rparr>"

text \<open>The body of the constructor's \<open>try\<close> block: \<open>Inl\<close> is an exception thrown in it.\<close>

definition Config_try :: "js_runtime \<Rightarrow> string \<Rightarrow> error + Config" where
  "Config_try rt rawJSONString =
     (if rawJSONString \<noteq> [] then
        (case JSON_parse rt rawJSONString of
           None \<Rightarrow> Inl SyntaxError
         | Some rawJSON \<Rightarrow>
             (case get_property rawJSON ''jpds'' of
                Inl e \<Rightarrow> Inl e
              | Inr (Some (JArr js)) \<Rightarrow>
                  (case mapM normalize_jpd js of
                     Inl e \<Rightarrow> Inl e
                   | Inr cs \<Rightarrow>
                       (case get_property rawJSON ''action'' of
                          Inl e \<Rightarrow> Inl e
                        | Inr a \<Rightarrow> Inr \<lparr>jpds = List.map_filter (\<lambda>c. c) cs, action = a\<rparr>))
              | Inr _ \<Rightarrow>
                  (case get_property rawJSON ''action'' of
                     Inl e \<Rightarrow> Inl e
                   | Inr a \<Rightarrow> Inr \<lparr>jpds = [], action = a\<rparr>)))
      else Inr default_config)"

text \<open>The constructor: its \<open>catch\<close> block replaces any exception by the default.\<close>

definition Config_constructor :: "js_runtime \<Rightarrow> string \<Rightarrow> Config" where
  "Config_constructor rt rawJSONString =
     (case Config_try rt rawJSONString of
        Inl e \<Rightarrow> default_config
      | Inr c \<Rightarrow> c)"

section \<open>Request and response\<close>

text \<open>
  \<open>Header\<close> is declared in the worker's \<open>types.ts\<close>; the worker never builds one.
\<close>

typedecl Header

datatype UploadStatus = UPLOAD_UNSPECIFIED | UPLOAD_PROCEED | UPLOAD_STOP | UPLOAD_WARN

record RepoPath =
  key :: string
  path :: string
  id_RepoPath :: string
  isRoot :: bool
  isFolder :: bool

record UploadMetadata =
  repoPath :: "RepoPath option"

record BeforeUploadRequest =
  metadata :: "UploadMetadata option"

record BeforeUploadResponse =
  status :: UploadStatus
  message :: string
  modifiedRepoPath :: "RepoPath option"
  headers :: "(string \<times> Header) list"

text \<open>
  The guard \<open>data && data.metadata && data.metadata.repoPath && key && path\<close>: the
  repository path of a request that can be processed.
\<close>

definition essential_metadata :: "BeforeUploadRequest option \<Rightarrow> RepoPath option" where
  "essential_metadata data =
     (case data of
        None \<Rightarrow> None
      | Some d \<Rightarrow>
          (case metadata d of
             None \<Rightarrow> None
           | Some md \<Rightarrow>
               (case repoPath md of
                  None \<Rightarrow> None
                | Some rp \<Rightarrow> if key rp \<noteq> [] \<and> path rp \<noteq> [] then Some rp else None)))"

section \<open>Which targets are relevant to an upload\<close>

record ScopeMatch =
  jpd :: JPDConfig
  repoConfig :: "RepoConfig option"

text \<open>The predicate given to \<open>some\<close>; \<open>endsWith\<close> of a value that is no string throws.\<close>

definition path_matches :: "string \<Rightarrow> json \<Rightarrow> error + bool" where
  "path_matches uploadDir configPath =
     (case configPath of
        JStr cp \<Rightarrow>
          Inr (uploadDir = cp
               \<or> startsWith uploadDir (if endsWith cp ''/'' then cp else cp @ ''/''))
      | _ \<Rightarrow> Inl TypeError)"

fun some_path :: "string \<Rightarrow> json list \<Rightarrow> error + bool" where
  "some_path uploadDir [] = Inr False"
| "some_path uploadDir (p # ps) =
     (case path_matches uploadDir p of
        Inl e \<Rightarrow> Inl e
      | Inr m \<Rightarrow> if m then Inr True else some_path uploadDir ps)"

definition repo_relevant :: "string \<Rightarrow> RepoConfig \<Rightarrow> error + bool" where
  "repo_relevant uploadDir rc =
     (case paths rc of
        Some (JArr ps) \<Rightarrow> if length ps > 0 then some_path uploadDir ps else Inr True
      | _ \<Rightarrow> Inr True)"

fun relevant_repos :: "string \<Rightarrow> JPDConfig \<Rightarrow> RepoConfig list \<Rightarrow> error + ScopeMatch list" where
  "relevant_repos uploadDir j [] = Inr []"
| "relevant_repos uploadDir j (rc # rcs) =
     (case repo_relevant uploadDir rc of
        Inl e \<Rightarrow> Inl e
      | Inr m \<Rightarrow>
          (case relevant_repos uploadDir j rcs of
             Inl e \<Rightarrow> Inl e
           | Inr ms \<Rightarrow>
               Inr ((if m then [\<lparr>jpd = j, repoConfig = Some rc\<rparr>] else []) @ ms)))"

fun relevantJPDs :: "string \<Rightarrow> JPDConfig list \<Rightarrow> error + ScopeMatch list" where
  "relevantJPDs uploadDir [] = Inr []"
| "relevantJPDs uploadDir (j # js) =
     (case (if length (repos j) = 0 then Inr [\<lparr>jpd = j, repoConfig = None\<rparr>]
            else relevant_repos uploadDir j (repos j)) of
        Inl e \<Rightarrow> Inl e
      | Inr ms \<Rightarrow>
          (case relevantJPDs uploadDir js of
             Inl e \<Rightarrow> Inl e
           | Inr ms' \<Rightarrow> Inr (ms @ ms')))"

section \<open>The existence query\<close>

text \<open>
  The criteria of the \<open>$and\<close> clause that \<open>findInstance\<close> builds, and the query around
  them; the text that \<open>JSON.stringify\<close> makes of them is not modelled.
\<close>

datatype criterion =
    Repo json
  | Path string
  | PathMatch string
  | NameMatch string
  | Or "criterion list"

record aql_query =
  find_criteria :: "criterion list"
  include_fields :: "string list"
  limit_clause :: "int option"

record remote_call =
  endpoint :: string
  aql :: aql_query

definition repo_criteria :: "json list \<Rightarrow> criterion list" where
  "repo_criteria targetRepos =
     (case targetRepos of
        [] \<Rightarrow> []
      | [r] \<Rightarrow> [Repo r]
      | _ \<Rightarrow> [Or (map Repo targetRepos)])"

definition own_path :: "string \<Rightarrow> criterion" where
  "own_path filePath = Path (if filePath \<noteq> [] then filePath else ''.'')"

text \<open>
  \<open>pathsToSearch\<close> is whatever truthy value the configuration has under \<open>paths\<close>: for
  an array the code is as written; a string has a \<open>length\<close> and an index 0 but no
  \<open>map\<close>; an object has them if it has such properties; calling a \<open>map\<close> that is no
  function throws.
\<close>

text \<open>The criterion \<open>{"path": {"$match": p + "*"}}\<close>; the concatenation converts \<open>p\<close>.\<close>

definition path_match :: "json option \<Rightarrow> error + criterion" where
  "path_match p =
     (case ToString_opt p of
        Inl e \<Rightarrow> Inl e
      | Inr s \<Rightarrow> Inr (PathMatch (s @ ''*'')))"

fun path_criteria :: "js_runtime \<Rightarrow> json option \<Rightarrow> string \<Rightarrow> error + criterion" where
  "path_criteria rt (Some (JArr ps)) filePath =
     (if length ps > 0 then
        (case ps of
           [p] \<Rightarrow> path_match (Some p)
         | _ \<Rightarrow>
             (case mapM (\<lambda>p. path_match (Some p)) ps of
                Inl e \<Rightarrow> Inl e
              | Inr pathOrClauses \<Rightarrow> Inr (Or pathOrClauses)))
      else Inr (own_path filePath))"
| "path_criteria rt (Some (JStr s)) filePath =
     (if length s > 0 then
        (if length s = 1 then Inr (PathMatch (s @ ''*'')) else Inl TypeError)
      else Inr (own_path filePath))"
| "path_criteria rt (Some (JObj kvs)) filePath =
     (case map_of kvs ''length'' of
        None \<Rightarrow> Inr (own_path filePath)
      | Some n \<Rightarrow>
          (case greater_than_zero rt n of
             Inl e \<Rightarrow> Inl e
           | Inr positive \<Rightarrow>
               if positive then
                 (if n = JNum ''1'' then path_match (map_of kvs ''0'') else Inl TypeError)
               else Inr (own_path filePath)))"
| "path_criteria rt v filePath = Inr (own_path filePath)"

text \<open>
  The name criterion; with an empty file name the warning that is logged first converts
  the target's url, the argument \<open>jpd\<close> of \<open>findInstance\<close>.
\<close>

definition name_criteria :: "json \<Rightarrow> string \<Rightarrow> error + criterion" where
  "name_criteria jpd_url fileName =
     (if fileName \<noteq> [] then Inr (NameMatch fileName)
      else (case ToString jpd_url of
              Inl e \<Rightarrow> Inl e
            | Inr u \<Rightarrow> Inr (NameMatch ''*'')))"

definition findInstance_query ::
  "js_runtime \<Rightarrow> json \<Rightarrow> string \<Rightarrow> string \<Rightarrow> json list \<Rightarrow> int \<Rightarrow> json option
     \<Rightarrow> error + aql_query" where
  "findInstance_query rt jpd_url fileName filePath targetRepos limit pathsToSearch =
     (case path_criteria rt pathsToSearch filePath of
        Inl e \<Rightarrow> Inl e
      | Inr pc \<Rightarrow>
          (case name_criteria jpd_url fileName of
             Inl e \<Rightarrow> Inl e
           | Inr nc \<Rightarrow>
               Inr \<lparr>find_criteria = repo_criteria targetRepos @ [pc] @ [nc],
                    include_fields = [''repo'', ''path'', ''name''],
                    limit_clause = (if limit > 0 then Some limit else None)\<rparr>))"

text \<open>
  The request that \<open>runAql\<close> sends: its log line and the address both convert the
  target's url.
\<close>

definition runAql_request :: "json \<Rightarrow> aql_query \<Rightarrow> error + remote_call" where
  "runAql_request jpd_url q =
     (case ToString jpd_url of
        Inl e \<Rightarrow> Inl e
      | Inr u \<Rightarrow>
          Inr \<lparr>endpoint = ''https://'' @ u @ ''/artifactory/api/search/aql'', aql = q\<rparr>)"

section \<open>The search jobs\<close>

text \<open>
  What the remote search endpoint gives back.  \<open>Rejected\<close>: the request fails, or its
  response has no \<open>data\<close>; \<open>runAql\<close> logs and rethrows.  \<open>Resolved\<close>: the \<open>results\<close>
  of the response, \<open>None\<close> when absent.  The query asks for the fields \<open>repo\<close>,
  \<open>path\<close> and \<open>name\<close> of each item, which the model takes to be strings.
\<close>

record found_item =
  item_repo :: string
  item_path :: string
  item_name :: string

datatype axios_result = Rejected | Resolved "found_item list option"

definition runAql :: "axios_result \<Rightarrow> error + found_item list" where
  "runAql r =
     (case r of
        Rejected \<Rightarrow> Inl NetworkError
      | Resolved None \<Rightarrow> Inr []
      | Resolved (Some results) \<Rightarrow> Inr results)"

text \<open>
  The world outside one run of the worker: what the request of the \<open>i\<close>-th job is answered
  with, and when the answer arrives.  Answers are handled in the order of their arrival,
  those of equal time in the order of the jobs.
\<close>

record remote_env =
  axios_post :: "nat \<Rightarrow> axios_result"
  completed_at :: "nat \<Rightarrow> nat"

record SearchState =
  found :: bool
  foundResult :: "found_item list option"
  foundMessage :: "string option"

definition initial_state :: SearchState where
  "initial_state = \<lparr>found = False, foundResult = None, foundMessage = None\<rparr>"

text \<open>
  The text \<open>jpd.url + (repoConfig ? ', repo: ' + repoConfig.name : ' (all repos)')\<close>
  that every log line of a job contains.
\<close>

definition job_label :: "ScopeMatch \<Rightarrow> error + string" where
  "job_label m =
     (case ToString (url (jpd m)) of
        Inl e \<Rightarrow> Inl e
      | Inr u \<Rightarrow>
          (case repoConfig m of
             None \<Rightarrow> Inr (u @ '' (all repos)'')
           | Some rc \<Rightarrow>
               (case ToString (name rc) of
                  Inl e \<Rightarrow> Inl e
                | Inr n \<Rightarrow> Inr (u @ '', repo: '' @ n))))"

text \<open>
  A job runs without interruption up to the request it sends.  Its first log line, for
  skipping or for starting, is outside its \<open>try\<close>: when that line throws, the job is
  aborted (its promise is rejected, which \<open>Promise.allSettled\<close> absorbs).  Otherwise
  the job is skipped when a duplicate is already known, it throws when \<open>findInstance\<close>
  or \<open>runAql\<close> throws before the request is sent (the job's own \<open>catch\<close> then logs
  the error), or it awaits the answer.  In the last three cases the label has been built,
  so the later log lines of the job, which convert the same values, do not throw.
\<close>

datatype job = Aborted | Skipped | Threw | Awaiting remote_call

definition start_job :: "js_runtime \<Rightarrow> SearchState \<Rightarrow> string \<Rightarrow> ScopeMatch \<Rightarrow> job" where
  "start_job rt st fullPath m =
     (if found st then
        (case job_label m of Inl e \<Rightarrow> Aborted | Inr l \<Rightarrow> Skipped)
      else
        (case job_label m of
           Inl e \<Rightarrow> Aborted
         | Inr l \<Rightarrow>
             let fileNameToSearch = getFileNameFromPath fullPath;
                 filePathToSearch = getDirectoryPathFromPath fullPath;
                 targetRepos = (case repoConfig m of Some rc \<Rightarrow> [name rc] | None \<Rightarrow> []);
                 pathsToSearch =
                   (case repoConfig m of
                      Some rc \<Rightarrow>
                        (case paths rc of
                           Some v \<Rightarrow> if truthy v then Some v else None
                         | None \<Rightarrow> None)
                    | None \<Rightarrow> None)
             in case findInstance_query rt (url (jpd m)) fileNameToSearch filePathToSearch
                       targetRepos 1 pathsToSearch of
                  Inl e \<Rightarrow> Threw
                | Inr q \<Rightarrow>
                    (case runAql_request (url (jpd m)) q of
                       Inl e \<Rightarrow> Threw
                     | Inr c \<Rightarrow> Awaiting c)))"

definition fullPathOfFoundItem :: "found_item \<Rightarrow> string" where
  "fullPathOfFoundItem firstFound =
     (if item_path firstFound = ''.'' then [] else item_path firstFound)
     @ (if item_path firstFound = ''.'' then [] else ''/'')
     @ item_name firstFound"

text \<open>
  The rest of a job, run when the answer to its request has arrived.  A failed request is
  rethrown by \<open>runAql\<close> and caught by the job.  After an answer, \<open>findInstance\<close> and
  the job log a line each; then \<open>found\<close> and \<open>foundResult\<close> are set, and after them
  the message, whose text converts the target's url once more.
\<close>

definition finish_job :: "SearchState \<Rightarrow> string \<Rightarrow> ScopeMatch \<Rightarrow> axios_result \<Rightarrow> SearchState" where
  "finish_job st fullPath m r =
     (case runAql r of
        Inl e \<Rightarrow> st
      | Inr result \<Rightarrow>
          (case job_label m of
             Inl e \<Rightarrow> st
           | Inr l \<Rightarrow>
               (case result of
                  [] \<Rightarrow> st
                | firstFound # rest \<Rightarrow>
                    if \<not> found st then
                      (case ToString (url (jpd m)) of
                         Inl e \<Rightarrow>
                           \<lparr>found = True, foundResult = Some result,
                            foundMessage = foundMessage st\<rparr>
                       | Inr u \<Rightarrow>
                           \<lparr>found = True,
                            foundResult = Some result,
                            foundMessage = Some (''Artifact matching '' @ fullPath
                               @ '' already exists in JPD: '' @ u @ '':''
                               @ item_repo firstFound @ ''/''
                               @ fullPathOfFoundItem firstFound)\<rparr>)
                    else st)))"

text \<open>
  The loop that starts the jobs runs to its end before any answer is handled, so every job
  starts in the state the loop was entered with.
\<close>

definition searchJobs :: "js_runtime \<Rightarrow> SearchState \<Rightarrow> string \<Rightarrow> ScopeMatch list \<Rightarrow> job list" where
  "searchJobs rt st fullPath ms = map (start_job rt st fullPath) ms"

definition issued_calls :: "job list \<Rightarrow> remote_call list" where
  "issued_calls js = concat (map (\<lambda>j. case j of Awaiting c \<Rightarrow> [c] | _ \<Rightarrow> []) js)"

definition completion_order :: "remote_env \<Rightarrow> 'a list \<Rightarrow> (nat \<times> 'a) list" where
  "completion_order env xs = sort_key (\<lambda>t. completed_at env (fst t)) (enumerate 0 xs)"

definition settle :: "string \<Rightarrow> remote_env \<Rightarrow> SearchState \<Rightarrow> nat \<times> ScopeMatch \<times> job \<Rightarrow> SearchState" where
  "settle fullPath env st t =
     (case snd (snd t) of
        Awaiting c \<Rightarrow> finish_job st fullPath (fst (snd t)) (axios_post env (fst t))
      | _ \<Rightarrow> st)"

definition allSettled ::
  "string \<Rightarrow> remote_env \<Rightarrow> SearchState \<Rightarrow> ScopeMatch list \<Rightarrow> job list \<Rightarrow> SearchState" where
  "allSettled fullPath env st ms js =
     foldl (settle fullPath env) st (completion_order env (zip ms js))"

section \<open>The decision and the worker\<close>

text \<open>
  The \<open>switch\<close> on the configured action.  Its default branch first logs a warning
  whose text converts the action, and only then sets the status and the message: when the
  conversion throws, neither is set and the exception leaves the \<open>try\<close> block.
\<close>

definition decision ::
  "json option \<Rightarrow> SearchState \<Rightarrow> string \<Rightarrow> error + (UploadStatus \<times> string)" where
  "decision config_action st fullPath =
     (if found st then
        let message =
              (case foundMessage st of
                 Some m \<Rightarrow>
                   if m \<noteq> [] then m
                   else ''Duplicate artifact found. Upload will not proceed.''
               | None \<Rightarrow> ''Duplicate artifact found. Upload will not proceed.'')
        in if config_action = Some (JStr ''block'') then Inr (UPLOAD_STOP, message)
           else if config_action = Some (JStr ''warn'') then Inr (UPLOAD_WARN, message)
           else (case ToString_opt config_action of
                   Inl e \<Rightarrow> Inl e
                 | Inr a \<Rightarrow>
                     Inr (UPLOAD_STOP, ''Unknown action in config. Upload will not proceed.''))
      else Inr (UPLOAD_PROCEED,
                ''Artifact '' @ fullPath @ '' can be uploaded. No duplicates found.''))"

text \<open>
  The worker, given the text that \<open>loadConfig\<close> returned (empty when the configuration
  could not be loaded).  \<open>Inl\<close>: the worker throws (its outer \<open>catch\<close> logs the
  exception and throws it again); \<open>Inr\<close>: its response, with the requests it sent to
  remote search endpoints.
\<close>

definition runWorker ::
  "js_runtime \<Rightarrow> string \<Rightarrow> remote_env \<Rightarrow> BeforeUploadRequest option
     \<Rightarrow> error + (BeforeUploadResponse \<times> remote_call list)" where
  "runWorker rt configString env data =
     (case essential_metadata data of
        None \<Rightarrow>
          Inr (\<lparr>status = UPLOAD_STOP,
                message = ''Essential data missing in the request payload.'',
                modifiedRepoPath = None,
                headers = []\<rparr>, [])
      | Some rp \<Rightarrow>
          let config = Config_constructor rt configString;
              uploadDir = getDirectoryPathFromPath (path rp)
          in case relevantJPDs uploadDir (jpds config) of
               Inl e \<Rightarrow> Inl e
             | Inr relevant \<Rightarrow>
                 if length relevant = 0 then
                   Inr (\<lparr>status = UPLOAD_PROCEED,
                         message = ''Artifact path is not in configured search scope for any JPD. Upload allowed.'',
                         modifiedRepoPath = Some rp,
                         headers = []\<rparr>, [])
                 else
                   let js = searchJobs rt initial_state (path rp) relevant;
                       st = allSettled (path rp) env initial_state relevant js
                   in case decision (action config) st (path rp) of
                        Inl e \<Rightarrow> Inl e
                      | Inr d \<Rightarrow>
                          Inr (\<lparr>status = fst d,
                                message = snd d,
                                modifiedRepoPath = Some rp,
                                headers = []\<rparr>, issued_calls js))"

section \<open>Notions used to state the properties, and example inputs\<close>

text \<open>The same world, with an empty result list in place of every failed request.\<close>

definition errors_as_no_match :: "remote_env \<Rightarrow> remote_env" where
  "errors_as_no_match env =
     env\<lparr>axios_post := (\<lambda>i. case axios_post env i of
                                 Rejected \<Rightarrow> Resolved (Some [])
                               | Resolved r \<Rightarrow> Resolved r)\<rparr>"

text \<open>A runtime whose parser reads the configuration text as the given document.\<close>

definition runtime_reading :: "json \<Rightarrow> js_runtime" where
  "runtime_reading doc =
     \<lparr>JSON_parse = (\<lambda>s. Some doc), StringToNumber_positive = (\<lambda>s. False)\<rparr>"

text \<open>A runtime whose parser throws on every text.\<close>

definition runtime_rejecting :: js_runtime where
  "runtime_rejecting = \<lparr>JSON_parse = (\<lambda>s. None), StringToNumber_positive = (\<lambda>s. False)\<rparr>"

definition upload :: "string \<Rightarrow> string \<Rightarrow> RepoPath" where
  "upload k p =
     \<lparr>key = k, path = p, id_RepoPath = k @ '':'' @ p, isRoot = False, isFolder = False\<rparr>"

definition request :: "RepoPath \<Rightarrow> BeforeUploadRequest option" where
  "request rp = Some \<lparr>metadata = Some \<lparr>repoPath = Some rp\<rparr>\<rparr>"

text \<open>
  The document \<open>{"jpds": [{"url": u, "repos": rs}], "action": a}\<close>.
\<close>

definition one_target :: "string \<Rightarrow> json list \<Rightarrow> string \<Rightarrow> json" where
  "one_target u rs a =
     JObj [(''jpds'', JArr [JObj [(''url'', JStr u), (''repos'', JArr rs)]]),
           (''action'', JStr a)]"

text \<open>The repo entry \<open>{"name": n, "paths": ps}\<close>.\<close>

definition repo_entry :: "string \<Rightarrow> string list \<Rightarrow> json" where
  "repo_entry n ps = JObj [(''name'', JStr n), (''paths'', JArr (map JStr ps))]"

definition answering :: "axios_result \<Rightarrow> remote_env" where
  "answering r = \<lparr>axios_post = (\<lambda>i. r), completed_at = (\<lambda>i. i)\<rparr>"

text \<open>
  The prefix that a configured root is compared with: the root itself when it ends with a
  slash, the root followed by a slash otherwise.
\<close>

definition root_prefix :: "string \<Rightarrow> string" where
  "root_prefix r = (if r \<noteq> [] \<and> last r = CHR ''/'' then r else r @ ''/'')"

text \<open>
  A configuration with one target and one repository limited to one root, an upload below
  that root, the job and the request it leads to, and an item the remote may answer with.
\<close>

definition example_document :: json where
  "example_document =
     one_target ''test.jfrog.io'' [repo_entry ''test-repo'' [''test/path'']] ''block''"

definition example_repo :: RepoConfig where
  "example_repo = \<lparr>name = JStr ''test-repo'', paths = Some (JArr [JStr ''test/path''])\<rparr>"

definition example_match :: ScopeMatch where
  "example_match =
     \<lparr>jpd = \<lparr>url = JStr ''test.jfrog.io'', repos = [example_repo]\<rparr>,
      repoConfig = Some example_repo\<rparr>"

definition example_upload :: RepoPath where
  "example_upload = upload ''test-repo'' ''test/path/file.txt''"

definition example_item :: found_item where
  "example_item =
     \<lparr>item_repo = ''test-repo'', item_path = ''test/path'', item_name = ''file.txt''\<rparr>"

definition example_call :: remote_call where
  "example_call =
     \<lparr>endpoint = ''https://test.jfrog.io/artifactory/api/search/aql'',
      aql = \<lparr>find_criteria = [Repo (JStr ''test-repo''), PathMatch ''test/path*'',
                                NameMatch ''file.txt''],
             include_fields = [''repo'', ''path'', ''name''],
             limit_clause = Some 1\<rparr>\<rparr>"

text \<open>
  The same configuration with a second target, the two scope matches and requests it leads
  to for the example upload, and a world that answers the first request with one result
  and every other request with another.
\<close>

definition two_targets :: json where
  "two_targets =
     JObj [(''jpds'',
            JArr [JObj [(''url'', JStr ''first.jfrog.io''),
                        (''repos'', JArr [repo_entry ''test-repo'' [''test/path'']])],
                  JObj [(''url'', JStr ''second.jfrog.io''),
                        (''repos'', JArr [repo_entry ''test-repo'' [''test/path'']])]]),
           (''action'', JStr ''block'')]"

definition match_at :: "string \<Rightarrow> ScopeMatch" where
  "match_at u = \<lparr>jpd = \<lparr>url = JStr u, repos = [example_repo]\<rparr>, repoConfig = Some example_repo\<rparr>"

definition call_to :: "string \<Rightarrow> remote_call" where
  "call_to u = \<lparr>endpoint = ''https://'' @ u @ ''/artifactory/api/search/aql'',
               aql = aql example_call\<rparr>"

definition answering_first :: "axios_result \<Rightarrow> axios_result \<Rightarrow> remote_env" where
  "answering_first r0 r =
     \<lparr>axios_post = (\<lambda>i. if i = 0 then r0 else r), completed_at = (\<lambda>i. i)\<rparr>"

text \<open>
  The example configuration with the action \<open>{"toString": 1}\<close> in place of
  \<open>"block"\<close>.
\<close>

definition unprintable_action :: json where
  "unprintable_action =
     JObj [(''jpds'', JArr [JObj [(''url'', JStr ''test.jfrog.io''),
                                  (''repos'', JArr [repo_entry ''test-repo'' [''test/path'']])]]),
           (''action'', JObj [(''toString'', JNum ''1'')])]"

text \<open>A target without repository entries, as a scope match.\<close>

definition whole_target :: ScopeMatch where
  "whole_target = \<lparr>jpd = \<lparr>url = JStr ''a.jfrog.io'', repos = []\<rparr>, repoConfig = None\<rparr>"

section \<open>Auxiliary facts\<close>

lemmas worker_defs =
  runWorker_def essential_metadata_def Config_constructor_def Config_try_def
  default_config_def normalize_jpd_def normalize_repo_def List.map_filter_def
  getDirectoryPathFromPath_def getFileNameFromPath_def repo_relevant_def path_matches_def
  startsWith_def endsWith_def
  searchJobs_def start_job_def initial_state_def findInstance_query_def repo_criteria_def
  own_path_def name_criteria_def path_match_def runAql_request_def job_label_def
  allSettled_def completion_order_def settle_def
  finish_job_def runAql_def fullPathOfFoundItem_def decision_def issued_calls_def Let_def

lemmas example_defs =
  runtime_reading_def runtime_rejecting_def upload_def request_def one_target_def
  repo_entry_def answering_def example_document_def example_repo_def example_match_def
  example_upload_def example_item_def example_call_def whole_target_def
  two_targets_def match_at_def call_to_def answering_first_def unprintable_action_def

lemma finish_job_Rejected: "finish_job st p m Rejected = st"
  by (simp add: finish_job_def runAql_def)

lemma finish_job_empty: "finish_job st p m (Resolved (Some [])) = st"
  by (simp add: finish_job_def runAql_def split: sum.splits)

lemma finish_job_nonempty:
  "job_label m = Inr l \<Longrightarrow> found (finish_job st p m (Resolved (Some (x # xs))))"
  by (simp add: finish_job_def runAql_def split: sum.splits)

lemma finish_job_keeps_found: "found st \<Longrightarrow> finish_job st p m r = st"
  by (simp add: finish_job_def runAql_def
           split: sum.splits list.splits axios_result.splits option.splits)

lemma start_job_Awaiting_label:
  "start_job rt st p m = Awaiting c \<Longrightarrow> \<exists>l. job_label m = Inr l"
  by (auto simp: start_job_def split: if_splits sum.splits)

lemma settle_keeps_found: "found st \<Longrightarrow> settle p env st t = st"
  by (simp add: settle_def finish_job_keeps_found split: job.splits)

lemma foldl_settle_keeps_found: "found st \<Longrightarrow> foldl (settle p env) st ts = st"
  by (induction ts) (simp_all add: settle_keeps_found)

lemma settle_errors_as_no_match:
  "settle p (errors_as_no_match env) st t = settle p env st t"
  by (simp add: settle_def errors_as_no_match_def finish_job_Rejected finish_job_empty
           split: job.splits axios_result.splits)

lemma completion_order_errors_as_no_match:
  "completion_order (errors_as_no_match env) xs = completion_order env xs"
  by (simp add: completion_order_def errors_as_no_match_def)

lemma allSettled_errors_as_no_match:
  "allSettled p (errors_as_no_match env) st ms js = allSettled p env st ms js"
proof -
  have "settle p (errors_as_no_match env) = settle p env"
    by (intro ext) (rule settle_errors_as_no_match)
  then show ?thesis
    by (simp add: allSettled_def completion_order_errors_as_no_match)
qed

lemma settle_Rejected:
  "axios_post env (fst t) = Rejected \<Longrightarrow> settle p env st t = st"
  by (simp add: settle_def finish_job_Rejected split: job.splits)

lemma foldl_settle_all_Rejected:
  "\<forall>t \<in> set ts. axios_post env (fst t) = Rejected \<Longrightarrow> foldl (settle p env) st ts = st"
  by (induction ts arbitrary: st) (simp_all add: settle_Rejected)

lemma set_completion_order:
  "set (completion_order env xs) = set (enumerate 0 xs)"
  by (simp add: completion_order_def)

lemma fst_completion_order:
  "t \<in> set (completion_order env xs) \<Longrightarrow> fst t < length xs"
  by (auto simp: set_completion_order in_set_enumerate_eq)

lemma allSettled_all_Rejected:
  assumes "length js = length ms" and "\<forall>i < length ms. axios_post env i = Rejected"
  shows "allSettled p env st ms js = st"
  unfolding allSettled_def
  using assms by (intro foldl_settle_all_Rejected) (auto dest!: fst_completion_order)

lemma foldl_settle_found:
  assumes "t \<in> set ts" and "snd (snd t) = Awaiting c"
      and "job_label (fst (snd t)) = Inr l"
      and "axios_post env (fst t) = Resolved (Some (x # xs))"
  shows "found (foldl (settle p env) st ts)"
  using assms(1)
proof (induction ts arbitrary: st)
  case Nil
  then show ?case by simp
next
  case (Cons u us)
  show ?case
  proof (cases "u = t")
    case True
    have "found (settle p env st t)"
      using assms(2,3,4) by (simp add: settle_def finish_job_nonempty)
    then show ?thesis
      using True by (simp add: foldl_settle_keeps_found)
  next
    case False
    then have "t \<in> set us" using Cons.prems by simp
    then show ?thesis using Cons.IH by simp
  qed
qed

lemma allSettled_found:
  assumes "i < length ms" and "length js = length ms" and "js ! i = Awaiting c"
      and "job_label (ms ! i) = Inr l"
      and "axios_post env i = Resolved (Some (x # xs))"
  shows "found (allSettled p env st ms js)"
proof -
  have "(i, ms ! i, js ! i) \<in> set (completion_order env (zip ms js))"
    using assms(1,2) by (simp add: set_completion_order in_set_enumerate_eq)
  then show ?thesis
    unfolding allSettled_def
    using assms(3,4,5)
    by (intro foldl_settle_found[where t = "(i, ms ! i, js ! i)" and c = c and l = l])
       simp_all
qed

lemma ToString_error:
  "ToString v = Inl e \<Longrightarrow> e = TypeError"
  "ToString_elements vs = Inl e \<Longrightarrow> e = TypeError"
  by (induction v and vs rule: ToString_ToString_elements.induct)
     (auto split: sum.splits option.splits if_splits)

lemma ToString_opt_error: "ToString_opt a = Inl e \<Longrightarrow> e = TypeError"
  by (cases a) (auto dest: ToString_error)

lemma decision_error: "decision a st p = Inl e \<Longrightarrow> e = TypeError"
  by (auto simp: decision_def Let_def dest: ToString_opt_error split: if_splits sum.splits)

lemma decision_not_found:
  "\<not> found st \<Longrightarrow>
     decision a st p
       = Inr (UPLOAD_PROCEED, ''Artifact '' @ p @ '' can be uploaded. No duplicates found.'')"
  by (simp add: decision_def)

text \<open>
  The rows of the decision for a found duplicate: STOP for \<open>block\<close>, WARN for
  \<open>warn\<close>, and for any other action either STOP with the message that reports it, when
  the action converts to a string, or the exception of the conversion.
\<close>

lemma decision_found:
  assumes "found st"
  shows "a = Some (JStr ''block'') \<Longrightarrow> \<exists>msg. decision a st p = Inr (UPLOAD_STOP, msg)"
    and "a = Some (JStr ''warn'') \<Longrightarrow> \<exists>msg. decision a st p = Inr (UPLOAD_WARN, msg)"
    and "a \<noteq> Some (JStr ''block'') \<Longrightarrow> a \<noteq> Some (JStr ''warn'') \<Longrightarrow>
           ToString_opt a = Inr s \<Longrightarrow>
           decision a st p
             = Inr (UPLOAD_STOP, ''Unknown action in config. Upload will not proceed.'')"
    and "a \<noteq> Some (JStr ''block'') \<Longrightarrow> a \<noteq> Some (JStr ''warn'') \<Longrightarrow>
           ToString_opt a = Inl e \<Longrightarrow> decision a st p = Inl e"
  using assms by (simp_all add: decision_def Let_def)

lemma decision_found_cases:
  assumes "found st"
  shows "(\<exists>msg. decision a st p = Inr (UPLOAD_STOP, msg))
         \<or> (\<exists>msg. decision a st p = Inr (UPLOAD_WARN, msg))
         \<or> (decision a st p = Inl TypeError \<and> ToString_opt a = Inl TypeError)"
proof (cases "ToString_opt a")
  case (Inl e)
  then have "e = TypeError" by (rule ToString_opt_error)
  then show ?thesis
    using assms Inl by (auto simp: decision_def Let_def)
next
  case (Inr s)
  then show ?thesis
    using assms by (auto simp: decision_def Let_def)
qed

lemma some_path_error: "some_path d ps = Inl e \<Longrightarrow> e = TypeError"
  by (induction ps) (auto simp: path_matches_def split: sum.splits if_splits json.splits)

lemma repo_relevant_error: "repo_relevant d rc = Inl e \<Longrightarrow> e = TypeError"
  by (auto simp: repo_relevant_def some_path_error split: option.splits json.splits if_splits)

lemma relevant_repos_error: "relevant_repos d j rcs = Inl e \<Longrightarrow> e = TypeError"
  by (induction rcs) (auto simp: repo_relevant_error split: sum.splits)

lemma relevantJPDs_error: "relevantJPDs d js = Inl e \<Longrightarrow> e = TypeError"
  by (induction js) (auto simp: relevant_repos_error split: sum.splits if_splits)

lemma runWorker_error: "runWorker rt configString env data = Inl e \<Longrightarrow> e = TypeError"
  by (auto simp: runWorker_def Let_def relevantJPDs_error decision_error
           split: option.splits sum.splits if_splits)

lemma runWorker_errors_as_no_match:
  "runWorker rt configString (errors_as_no_match env) data = runWorker rt configString env data"
  by (simp add: runWorker_def Let_def allSettled_errors_as_no_match
           split: option.splits sum.splits)

lemma runWorker_issued_calls:
  assumes "runWorker rt configString env data = Inr (resp, calls)"
      and "runWorker rt configString env' data = Inr (resp', calls')"
  shows "calls' = calls"
  using assms
  by (auto simp: runWorker_def Let_def split: option.splits sum.splits if_splits)

lemma runWorker_all_Rejected:
  assumes "essential_metadata data = Some rp"
      and "relevantJPDs (getDirectoryPathFromPath (path rp))
             (jpds (Config_constructor rt configString)) = Inr ms"
      and "\<forall>i < length ms. axios_post env i = Rejected"
  shows "\<exists>resp calls. runWorker rt configString env data = Inr (resp, calls)
                      \<and> status resp = UPLOAD_PROCEED"
proof (cases "ms = []")
  case True
  then show ?thesis using assms(1,2) by (simp add: runWorker_def Let_def)
next
  case False
  have "allSettled (path rp) env initial_state ms (searchJobs rt initial_state (path rp) ms)
          = initial_state"
    using assms(3) by (intro allSettled_all_Rejected) (simp_all add: searchJobs_def)
  then show ?thesis
    using assms(1,2) False
    by (simp add: runWorker_def Let_def decision_not_found initial_state_def)
qed

lemma startsWith_iff: "startsWith s p \<longleftrightarrow> (\<exists>rest. s = p @ rest)"
proof
  assume "startsWith s p"
  then have "s = p @ drop (length p) s"
    by (metis startsWith_def append_take_drop_id)
  then show "\<exists>rest. s = p @ rest" ..
next
  assume "\<exists>rest. s = p @ rest"
  then show "startsWith s p" by (auto simp: startsWith_def)
qed

lemma endsWith_slash: "endsWith s ''/'' \<longleftrightarrow> (s \<noteq> [] \<and> last s = CHR ''/'')"
proof (cases s rule: rev_cases)
  case Nil
  then show ?thesis by (simp add: endsWith_def)
next
  case (snoc ys y)
  then show ?thesis by (auto simp: endsWith_def)
qed

lemma path_matches_JStr:
  "path_matches d (JStr r) = Inr (d = r \<or> (\<exists>rest. d = root_prefix r @ rest))"
  by (simp add: path_matches_def startsWith_iff endsWith_slash root_prefix_def)

lemma some_path_strings:
  "some_path d (map JStr roots)
     = Inr (\<exists>r \<in> set roots. d = r \<or> (\<exists>rest. d = root_prefix r @ rest))"
  by (induction roots) (auto simp: path_matches_JStr)

lemma root_prefix_nonempty: "root_prefix r \<noteq> []"
  by (simp add: root_prefix_def)

lemma split_slash_no_slash: "CHR ''/'' \<notin> set s \<Longrightarrow> split_slash s = [s]"
  by (induction s) auto

lemma directory_of_root_level:
  "CHR ''/'' \<notin> set fullPath \<Longrightarrow> getDirectoryPathFromPath fullPath = []"
  by (simp add: getDirectoryPathFromPath_def split_slash_no_slash)

lemma example_metadata:
  "essential_metadata (request example_upload) = Some example_upload"
  by (simp add: worker_defs example_defs)

lemma example_relevant:
  "relevantJPDs (getDirectoryPathFromPath (path example_upload))
     (jpds (Config_constructor (runtime_reading example_document) ''{...}''))
   = Inr [example_match]"
  by (simp add: worker_defs example_defs)

lemma example_start:
  "start_job (runtime_reading example_document) initial_state (path example_upload)
     ([example_match] ! 0) = Awaiting example_call"
  by (simp add: worker_defs example_defs)

lemma example_run:
  "runWorker (runtime_reading example_document) ''{...}''
     (answering (Resolved (Some [example_item]))) (request example_upload)
   = Inr (\<lparr>status = UPLOAD_STOP,
           message = ''Artifact matching test/path/file.txt already exists in JPD: test.jfrog.io:test-repo/test/path/file.txt'',
           modifiedRepoPath = Some example_upload, headers = []\<rparr>, [example_call])"
  by (simp add: worker_defs example_defs)

lemma two_targets_relevant:
  "relevantJPDs (getDirectoryPathFromPath (path example_upload))
     (jpds (Config_constructor (runtime_reading two_targets) ''{...}''))
   = Inr [match_at ''first.jfrog.io'', match_at ''second.jfrog.io'']"
  by (simp add: worker_defs example_defs)

lemma two_targets_run:
  "runWorker (runtime_reading two_targets) ''{...}''
     (answering_first Rejected (Resolved (Some [example_item]))) (request example_upload)
   = Inr (\<lparr>status = UPLOAD_STOP,
           message = ''Artifact matching test/path/file.txt already exists in JPD: second.jfrog.io:test-repo/test/path/file.txt'',
           modifiedRepoPath = Some example_upload, headers = []\<rparr>,
          [call_to ''first.jfrog.io'', call_to ''second.jfrog.io''])"
  by (simp add: worker_defs example_defs)

section \<open>The policy decision\<close>

text \<open>
  C4: the status is to follow from \<open>found\<close> and the configured action alone, with STOP
  and an overriding message for a found duplicate and any action other than \<open>block\<close>
  and \<open>warn\<close>.  The code does not reach that row for the action \<open>{"toString": 1}\<close>:
  with a duplicate found, the warning that the default branch logs before it sets the
  status cannot be built, and the worker throws instead of answering STOP.
\<close>

theorem unprintable_action_throws:
  "decision (Some (JObj [(''toString'', JNum ''1'')])) (initial_state\<lparr>found := True\<rparr>)
     ''test/path/file.txt'' = Inl TypeError
   \<and> runWorker (runtime_reading unprintable_action) ''{...}''
        (answering (Resolved (Some [example_item]))) (request example_upload)
       = Inl TypeError"
  by (simp add: worker_defs example_defs)

section \<open>Parsing the configuration\<close>

text \<open>
  C6: a configuration text that is empty, or that the JSON parser rejects, gives the
  configuration with no target and action \<open>warn\<close>.  The constructor returns it as its
  value: the exception of the parser does not leave the constructor.
\<close>

theorem Config_constructor_fail_open:
  assumes "rawJSONString = [] \<or> JSON_parse rt rawJSONString = None"
  shows "Config_constructor rt rawJSONString = \<lparr>jpds = [], action = Some (JStr ''warn'')\<rparr>"
  using assms
  by (auto simp: Config_constructor_def Config_try_def default_config_def)

theorem Config_constructor_fail_open_witness:
  "JSON_parse runtime_rejecting ''{not json'' = None
   \<and> Config_constructor runtime_rejecting ''{not json''
       = \<lparr>jpds = [], action = Some (JStr ''warn'')\<rparr>
   \<and> Config_constructor (runtime_reading JNull) []
       = \<lparr>jpds = [], action = Some (JStr ''warn'')\<rparr>"
  using Config_constructor_fail_open [of "''{not json''" runtime_rejecting]
        Config_constructor_fail_open [of "[]" "runtime_reading JNull"]
  by (simp add: runtime_rejecting_def)

text \<open>
  C2: a target entry with a URL whose repo list is absent is kept by the parser, and then
  matches every repository.  The constructor does not do so: for the document
  \<open>{"jpds": [{"url": "a.jfrog.io"}], "action": "block"}\<close> it keeps no target at all,
  because it also requires \<open>repos\<close> to be an array.
\<close>

theorem target_without_repos_is_dropped:
  "Config_constructor
     (runtime_reading
        (JObj [(''jpds'', JArr [JObj [(''url'', JStr ''a.jfrog.io'')]]),
               (''action'', JStr ''block'')]))
     ''{...}''
   = \<lparr>jpds = [], action = Some (JStr ''block'')\<rparr>"
  by (simp add: worker_defs example_defs)

section \<open>The worker\<close>

text \<open>
  C5: when no target, repository or path of the configuration is relevant to the upload
  (the list of scope matches is empty), the worker answers PROCEED and has sent no request
  to any remote search endpoint.
\<close>

theorem no_scope_fast_path:
  assumes "essential_metadata data = Some rp"
      and "relevantJPDs (getDirectoryPathFromPath (path rp))
             (jpds (Config_constructor rt configString)) = Inr []"
  shows "\<exists>resp. runWorker rt configString env data = Inr (resp, [])
                \<and> status resp = UPLOAD_PROCEED"
  using assms by (simp add: runWorker_def Let_def)

theorem no_scope_fast_path_witness:
  "essential_metadata (request (upload ''test-repo'' ''unrelated/path/file.txt''))
     = Some (upload ''test-repo'' ''unrelated/path/file.txt'')
   \<and> relevantJPDs
        (getDirectoryPathFromPath (path (upload ''test-repo'' ''unrelated/path/file.txt'')))
        (jpds (Config_constructor
           (runtime_reading
              (one_target ''test.jfrog.io'' [repo_entry ''other-repo'' [''different/path'']]
                 ''block''))
           ''{...}'')) = Inr []
   \<and> (\<exists>resp. runWorker
           (runtime_reading
              (one_target ''test.jfrog.io'' [repo_entry ''other-repo'' [''different/path'']]
                 ''block''))
           ''{...}''
           (answering (Resolved (Some [\<lparr>item_repo = ''r'', item_path = ''p'', item_name = ''n''\<rparr>])))
           (request (upload ''test-repo'' ''unrelated/path/file.txt'')) = Inr (resp, [])
         \<and> status resp = UPLOAD_PROCEED)"
proof -
  have h1: "essential_metadata (request (upload ''test-repo'' ''unrelated/path/file.txt''))
     = Some (upload ''test-repo'' ''unrelated/path/file.txt'')"
    by (simp add: worker_defs example_defs)
  have h2: "relevantJPDs
        (getDirectoryPathFromPath (path (upload ''test-repo'' ''unrelated/path/file.txt'')))
        (jpds (Config_constructor
           (runtime_reading
              (one_target ''test.jfrog.io'' [repo_entry ''other-repo'' [''different/path'']]
                 ''block''))
           ''{...}'')) = Inr []"
    by (simp add: worker_defs example_defs)
  show ?thesis
    using no_scope_fast_path [OF h1 h2] h1 h2 by simp
qed

section \<open>Failing and matching queries\<close>

text \<open>
  C7: a remote query that fails counts as no match for its scope.  The job that sent it
  leaves the search state as it was; whatever the worker does, it does the same in a world
  in which every failed request had come back with an empty result list; the requests
  the worker has sent when it answers are the same whatever the answers to them were; the
  failure is never thrown by the worker; and when the query of every relevant scope
  fails, the decision is PROCEED.
\<close>

theorem failed_query_counts_as_no_match:
  "finish_job st p m Rejected = st
   \<and> runWorker rt configString env data
       = runWorker rt configString (errors_as_no_match env) data
   \<and> (\<forall>resp calls resp' calls'.
          runWorker rt configString env data = Inr (resp, calls)
          \<and> runWorker rt configString env' data = Inr (resp', calls')
        \<longrightarrow> calls' = calls)
   \<and> runWorker rt configString env data \<noteq> Inl NetworkError
   \<and> (\<forall>rp ms. essential_metadata data = Some rp
          \<and> relevantJPDs (getDirectoryPathFromPath (path rp))
               (jpds (Config_constructor rt configString)) = Inr ms
          \<and> (\<forall>i < length ms. axios_post env i = Rejected)
        \<longrightarrow> (\<exists>resp calls. runWorker rt configString env data = Inr (resp, calls)
                           \<and> status resp = UPLOAD_PROCEED))"
proof (intro conjI allI impI)
  show "finish_job st p m Rejected = st"
    by (rule finish_job_Rejected)
  show "runWorker rt configString env data
          = runWorker rt configString (errors_as_no_match env) data"
    by (simp add: runWorker_errors_as_no_match)
  show "runWorker rt configString env data \<noteq> Inl NetworkError"
    using runWorker_error by blast
next
  fix resp calls resp' calls'
  assume "runWorker rt configString env data = Inr (resp, calls)
          \<and> runWorker rt configString env' data = Inr (resp', calls')"
  then show "calls' = calls"
    using runWorker_issued_calls by blast
next
  fix rp ms
  assume "essential_metadata data = Some rp
          \<and> relevantJPDs (getDirectoryPathFromPath (path rp))
               (jpds (Config_constructor rt configString)) = Inr ms
          \<and> (\<forall>i < length ms. axios_post env i = Rejected)"
  then show "\<exists>resp calls. runWorker rt configString env data = Inr (resp, calls)
                           \<and> status resp = UPLOAD_PROCEED"
    using runWorker_all_Rejected by blast
qed

theorem failed_query_counts_as_no_match_witness:
  "essential_metadata (request example_upload) = Some example_upload
   \<and> relevantJPDs (getDirectoryPathFromPath (path example_upload))
        (jpds (Config_constructor (runtime_reading two_targets) ''{...}''))
       = Inr [match_at ''first.jfrog.io'', match_at ''second.jfrog.io'']
   \<and> axios_post (answering Rejected) 0 = Rejected
   \<and> axios_post (answering Rejected) 1 = Rejected
   \<and> (\<exists>resp calls.
         runWorker (runtime_reading two_targets) ''{...}'' (answering Rejected)
           (request example_upload) = Inr (resp, calls)
         \<and> status resp = UPLOAD_PROCEED)
   \<and> runWorker (runtime_reading two_targets) ''{...}''
        (answering_first Rejected (Resolved (Some [example_item]))) (request example_upload)
       = Inr (\<lparr>status = UPLOAD_STOP,
               message = ''Artifact matching test/path/file.txt already exists in JPD: second.jfrog.io:test-repo/test/path/file.txt'',
               modifiedRepoPath = Some example_upload, headers = []\<rparr>,
              [call_to ''first.jfrog.io'', call_to ''second.jfrog.io''])"
proof -
  have h: "\<forall>i < length [match_at ''first.jfrog.io'', match_at ''second.jfrog.io''].
             axios_post (answering Rejected) i = Rejected"
    by (simp add: answering_def)
  have a: "axios_post (answering Rejected) 0 = Rejected"
          "axios_post (answering Rejected) 1 = Rejected"
    by (simp_all add: answering_def)
  have "\<exists>resp calls.
         runWorker (runtime_reading two_targets) ''{...}'' (answering Rejected)
           (request example_upload) = Inr (resp, calls)
         \<and> status resp = UPLOAD_PROCEED"
    using failed_query_counts_as_no_match
            [of initial_state "path example_upload" example_match
                "runtime_reading two_targets" "''{...}''" "answering Rejected"
                "request example_upload" "answering Rejected"]
          example_metadata two_targets_relevant h
    by blast
  then show ?thesis
    using example_metadata two_targets_relevant a two_targets_run by simp
qed

text \<open>
  C8: whatever the configuration and whatever the remote endpoints answer, if the query of
  some relevant scope comes back with a result list that is not empty, the worker does not
  answer PROCEED: it answers STOP or WARN, or, when the configured action is neither
  \<open>block\<close> nor \<open>warn\<close> and cannot be converted to a string, it throws.
\<close>

theorem match_never_proceeds:
  assumes "essential_metadata data = Some rp"
      and "relevantJPDs (getDirectoryPathFromPath (path rp))
             (jpds (Config_constructor rt configString)) = Inr ms"
      and "i < length ms"
      and "start_job rt initial_state (path rp) (ms ! i) = Awaiting c"
      and "axios_post env i = Resolved (Some (x # xs))"
  shows "(\<exists>resp calls. runWorker rt configString env data = Inr (resp, calls)
                       \<and> status resp \<noteq> UPLOAD_PROCEED
                       \<and> (status resp = UPLOAD_STOP \<or> status resp = UPLOAD_WARN))
         \<or> (runWorker rt configString env data = Inl TypeError
             \<and> ToString_opt (action (Config_constructor rt configString)) = Inl TypeError)"
proof -
  let ?js = "searchJobs rt initial_state (path rp) ms"
  let ?st = "allSettled (path rp) env initial_state ms ?js"
  let ?a = "action (Config_constructor rt configString)"
  have "length ?js = length ms"
    by (simp add: searchJobs_def)
  moreover have "?js ! i = Awaiting c"
    using assms(3,4) by (simp add: searchJobs_def)
  moreover obtain l where "job_label (ms ! i) = Inr l"
    using assms(4) start_job_Awaiting_label by blast
  ultimately have f: "found ?st"
    using assms(3,5) allSettled_found by blast
  have ne: "ms \<noteq> []"
    using assms(3) by auto
  have run: "runWorker rt configString env data
               = (case decision ?a ?st (path rp) of
                    Inl e \<Rightarrow> Inl e
                  | Inr d \<Rightarrow>
                      Inr (\<lparr>status = fst d, message = snd d,
                            modifiedRepoPath = Some rp, headers = []\<rparr>, issued_calls ?js))"
    using assms(1,2) ne by (simp add: runWorker_def Let_def)
  from decision_found_cases [OF f, of ?a "path rp"]
  consider (stop) msg where "decision ?a ?st (path rp) = Inr (UPLOAD_STOP, msg)"
    | (warn) msg where "decision ?a ?st (path rp) = Inr (UPLOAD_WARN, msg)"
    | (throw) "decision ?a ?st (path rp) = Inl TypeError" "ToString_opt ?a = Inl TypeError"
    by blast
  then show ?thesis
  proof cases
    case stop
    then show ?thesis using run by simp
  next
    case warn
    then show ?thesis using run by simp
  next
    case throw
    then show ?thesis using run by simp
  qed
qed

theorem match_never_proceeds_witness:
  "essential_metadata (request example_upload) = Some example_upload
   \<and> relevantJPDs (getDirectoryPathFromPath (path example_upload))
        (jpds (Config_constructor (runtime_reading example_document) ''{...}''))
       = Inr [example_match]
   \<and> 0 < length [example_match]
   \<and> start_job (runtime_reading example_document) initial_state (path example_upload)
        ([example_match] ! 0) = Awaiting example_call
   \<and> axios_post (answering (Resolved (Some [example_item]))) 0
       = Resolved (Some [example_item])
   \<and> (\<exists>resp calls.
         runWorker (runtime_reading example_document) ''{...}''
           (answering (Resolved (Some [example_item]))) (request example_upload)
           = Inr (resp, calls)
         \<and> status resp = UPLOAD_STOP)"
proof -
  have h3: "0 < length [example_match]"
    by simp
  have h5: "axios_post (answering (Resolved (Some [example_item]))) 0
              = Resolved (Some [example_item])"
    by (simp add: answering_def)
  have "runWorker (runtime_reading example_document) ''{...}''
          (answering (Resolved (Some [example_item]))) (request example_upload)
        \<noteq> Inl TypeError"
    using example_run by simp
  then have "\<exists>resp calls.
         runWorker (runtime_reading example_document) ''{...}''
           (answering (Resolved (Some [example_item]))) (request example_upload)
           = Inr (resp, calls)
         \<and> (status resp = UPLOAD_STOP \<or> status resp = UPLOAD_WARN)"
    using match_never_proceeds [OF example_metadata example_relevant h3 example_start h5]
    by blast
  then show ?thesis
    using example_metadata example_relevant h3 example_start h5 example_run by auto
qed

section \<open>The response\<close>

text \<open>
  C9, as amended: every response the worker returns has an empty header map.  A response
  to a request that passes validation carries the repository path of the request
  unchanged; the response to a request that fails validation carries no repository path.
\<close>

theorem response_identity_and_headers:
  assumes "runWorker rt configString env data = Inr (resp, calls)"
  shows "headers resp = []
         \<and> modifiedRepoPath resp = essential_metadata data
         \<and> (\<forall>rp. essential_metadata data = Some rp \<longrightarrow>
               (\<exists>d md. data = Some d \<and> metadata d = Some md \<and> repoPath md = Some rp
                       \<and> key rp \<noteq> [] \<and> path rp \<noteq> []))"
proof -
  have "headers resp = [] \<and> modifiedRepoPath resp = essential_metadata data"
    using assms
    by (auto simp: runWorker_def Let_def split: option.splits sum.splits if_splits)
  moreover have "\<forall>rp. essential_metadata data = Some rp \<longrightarrow>
               (\<exists>d md. data = Some d \<and> metadata d = Some md \<and> repoPath md = Some rp
                       \<and> key rp \<noteq> [] \<and> path rp \<noteq> [])"
    by (auto simp: essential_metadata_def split: option.splits if_splits)
  ultimately show ?thesis by blast
qed

theorem response_identity_and_headers_witness:
  "runWorker (runtime_reading example_document) ''{...}''
     (answering (Resolved (Some [example_item]))) (request example_upload)
   = Inr (\<lparr>status = UPLOAD_STOP,
           message = ''Artifact matching test/path/file.txt already exists in JPD: test.jfrog.io:test-repo/test/path/file.txt'',
           modifiedRepoPath = Some example_upload, headers = []\<rparr>, [example_call])
   \<and> essential_metadata (request example_upload) = Some example_upload"
  using response_identity_and_headers [OF example_run] example_run
  by simp

text \<open>
  C9, as stated, fails: a request with a repository key and an empty path fails validation,
  and the response carries no repository path at all.
\<close>

theorem validation_failure_has_no_identity:
  "runWorker (runtime_reading example_document) ''{...}'' (answering Rejected)
     (request (upload ''test-repo'' []))
   = Inr (\<lparr>status = UPLOAD_STOP,
           message = ''Essential data missing in the request payload.'',
           modifiedRepoPath = None, headers = []\<rparr>, [])
   \<and> None \<noteq> Some (upload ''test-repo'' [])"
  by (simp add: worker_defs example_defs)

section \<open>The existence filter and the path roots\<close>

text \<open>
  C1, as amended: for a scope match without a repository entry, of a target whose url
  converts to a string (as every string does), the query has no repository criterion at
  all.  Its criteria are the upload's own directory (\<open>.\<close> when the directory is empty)
  and a match on the upload's file name (\<open>*\<close> when the file name is empty), and it
  asks for at most 1 result.
\<close>

theorem query_without_repo_scope:
  assumes "repoConfig m = None"
      and "ToString (url (jpd m)) = Inr u"
  shows "start_job rt initial_state fullPath m =
           Awaiting
             \<lparr>endpoint = ''https://'' @ u @ ''/artifactory/api/search/aql'',
              aql = \<lparr>find_criteria =
                       [Path (if getDirectoryPathFromPath fullPath = [] then ''.''
                              else getDirectoryPathFromPath fullPath),
                        NameMatch (if getFileNameFromPath fullPath = [] then ''*''
                                   else getFileNameFromPath fullPath)],
                     include_fields = [''repo'', ''path'', ''name''],
                     limit_clause = Some 1\<rparr>\<rparr>"
  using assms
  by (simp add: start_job_def job_label_def initial_state_def findInstance_query_def
                own_path_def repo_criteria_def name_criteria_def runAql_request_def Let_def)

theorem query_without_repo_scope_witness:
  "repoConfig whole_target = None
   \<and> ToString (url (jpd whole_target)) = Inr ''a.jfrog.io''
   \<and> start_job (runtime_reading JNull) initial_state ''a/f.txt'' whole_target
       = Awaiting
           \<lparr>endpoint = ''https://a.jfrog.io/artifactory/api/search/aql'',
            aql = \<lparr>find_criteria = [Path ''a'', NameMatch ''f.txt''],
                   include_fields = [''repo'', ''path'', ''name''],
                   limit_clause = Some 1\<rparr>\<rparr>"
proof -
  have h: "repoConfig whole_target = None"
    by (simp add: whole_target_def)
  have u: "ToString (url (jpd whole_target)) = Inr ''a.jfrog.io''"
    by (simp add: whole_target_def)
  have d: "getDirectoryPathFromPath ''a/f.txt'' = ''a''"
    by (simp add: getDirectoryPathFromPath_def)
  have f: "getFileNameFromPath ''a/f.txt'' = ''f.txt''"
    by (simp add: getFileNameFromPath_def)
  show ?thesis
    using query_without_repo_scope [OF h u, of "runtime_reading JNull" "''a/f.txt''"] h u d f
    by simp
qed

text \<open>
  C1, as stated, fails: with a target that has no repository entries, the upload
  \<open>a/f.txt\<close> to repository \<open>r\<close> is searched with the criteria path \<open>a\<close> and name
  \<open>f.txt\<close> only; the repository \<open>r\<close> is not among them.
\<close>

theorem no_repo_scope_searches_all_repos:
  "runWorker (runtime_reading (one_target ''a.jfrog.io'' [] ''block'')) ''{...}''
     (answering (Resolved (Some []))) (request (upload ''r'' ''a/f.txt''))
   = Inr (\<lparr>status = UPLOAD_PROCEED,
           message = ''Artifact a/f.txt can be uploaded. No duplicates found.'',
           modifiedRepoPath = Some (upload ''r'' ''a/f.txt''), headers = []\<rparr>,
          [\<lparr>endpoint = ''https://a.jfrog.io/artifactory/api/search/aql'',
            aql = \<lparr>find_criteria = [Path ''a'', NameMatch ''f.txt''],
                   include_fields = [''repo'', ''path'', ''name''],
                   limit_clause = Some 1\<rparr>\<rparr>])
   \<and> Repo (JStr ''r'') \<notin> set [Path ''a'', NameMatch ''f.txt'']"
  by (simp add: worker_defs example_defs)

text \<open>
  C3, as amended: a repository entry whose list of roots is not empty matches the
  directory \<open>d\<close> exactly when \<open>d\<close> equals some root or starts with that root followed
  by a slash, where a root that already ends with a slash is not given a second one.  The
  root \<open>immutable\<close> matches \<open>immutable/sub\<close> and does not match \<open>immutable2\<close>.
\<close>

theorem path_roots_match:
  assumes "roots \<noteq> []"
  shows "repo_relevant d \<lparr>name = n, paths = Some (JArr (map JStr roots))\<rparr>
           = Inr (\<exists>r \<in> set roots. d = r \<or> (\<exists>rest. d = root_prefix r @ rest))
         \<and> repo_relevant ''immutable/sub''
             \<lparr>name = n, paths = Some (JArr [JStr ''immutable''])\<rparr> = Inr True
         \<and> repo_relevant ''immutable2''
             \<lparr>name = n, paths = Some (JArr [JStr ''immutable''])\<rparr> = Inr False"
proof -
  have "repo_relevant d \<lparr>name = n, paths = Some (JArr (map JStr roots))\<rparr>
           = Inr (\<exists>r \<in> set roots. d = r \<or> (\<exists>rest. d = root_prefix r @ rest))"
    using assms by (simp add: repo_relevant_def some_path_strings)
  moreover have "repo_relevant ''immutable/sub''
             \<lparr>name = n, paths = Some (JArr [JStr ''immutable''])\<rparr> = Inr True"
    by (simp add: repo_relevant_def path_matches_def startsWith_def endsWith_def)
  moreover have "repo_relevant ''immutable2''
             \<lparr>name = n, paths = Some (JArr [JStr ''immutable''])\<rparr> = Inr False"
    by (simp add: repo_relevant_def path_matches_def startsWith_def endsWith_def)
  ultimately show ?thesis by blast
qed

theorem path_roots_match_witness:
  "[''immutable'', ''foo/bar/''] \<noteq> []
   \<and> repo_relevant ''foo/bar/baz''
        \<lparr>name = JStr ''r'', paths = Some (JArr (map JStr [''immutable'', ''foo/bar/'']))\<rparr>
       = Inr True"
proof -
  have h: "[''immutable'', ''foo/bar/''] \<noteq> []"
    by simp
  have "''foo/bar/baz'' = root_prefix ''foo/bar/'' @ ''baz''"
    by (simp add: root_prefix_def)
  then show ?thesis
    using path_roots_match [OF h, of "''foo/bar/baz''" "JStr ''r''"] by auto
qed

text \<open>
  C3, as stated, fails for a root that ends with a slash: the root \<open>immutable/\<close>
  matches the directory \<open>immutable/sub\<close> of the upload \<open>immutable/sub/file.txt\<close>,
  which neither equals the root nor starts with the root followed by a slash.
\<close>

theorem trailing_slash_root_matches:
  "getDirectoryPathFromPath ''immutable/sub/file.txt'' = ''immutable/sub''
   \<and> repo_relevant ''immutable/sub''
        \<lparr>name = JStr ''r'', paths = Some (JArr [JStr ''immutable/''])\<rparr> = Inr True
   \<and> ''immutable/sub'' \<noteq> ''immutable/''
   \<and> \<not> startsWith ''immutable/sub'' (''immutable/'' @ ''/'')"
  by (simp add: worker_defs)

text \<open>
  C10, as amended: for an upload path without a slash the directory used for scope
  matching is the empty string; a repository entry with a list of roots that is not empty
  matches such an upload exactly when one of its roots is the empty string, so never when
  all its roots are non-empty strings; and a job for such an upload whose scope has no
  roots, and whose target url and repository name convert to strings, has the path
  criterion \<open>.\<close>.
\<close>

theorem root_level_upload:
  assumes "CHR ''/'' \<notin> set fullPath"
  shows "getDirectoryPathFromPath fullPath = []
         \<and> (roots \<noteq> [] \<longrightarrow>
              repo_relevant (getDirectoryPathFromPath fullPath)
                \<lparr>name = n, paths = Some (JArr (map JStr roots))\<rparr> = Inr ([] \<in> set roots))
         \<and> (ToString (url (jpd m)) = Inr u
             \<and> (\<forall>rc. repoConfig m = Some rc \<longrightarrow>
                    (paths rc = None \<or> paths rc = Some (JArr []))
                    \<and> (\<exists>s. ToString (name rc) = Inr s))
              \<longrightarrow> (\<exists>c. start_job rt initial_state fullPath m = Awaiting c
                       \<and> find_criteria (aql c)
                           = (case repoConfig m of None \<Rightarrow> [] | Some rc \<Rightarrow> [Repo (name rc)])
                             @ [Path ''.'',
                                NameMatch (if fullPath = [] then ''*'' else fullPath)]))"
proof (intro conjI impI)
  show d: "getDirectoryPathFromPath fullPath = []"
    using assms by (rule directory_of_root_level)
  show "repo_relevant (getDirectoryPathFromPath fullPath)
          \<lparr>name = n, paths = Some (JArr (map JStr roots))\<rparr> = Inr ([] \<in> set roots)"
    if "roots \<noteq> []"
    using that by (auto simp: d repo_relevant_def some_path_strings root_prefix_nonempty)
  have f: "getFileNameFromPath fullPath = fullPath"
    using assms by (simp add: getFileNameFromPath_def split_slash_no_slash)
  show "\<exists>c. start_job rt initial_state fullPath m = Awaiting c
           \<and> find_criteria (aql c)
               = (case repoConfig m of None \<Rightarrow> [] | Some rc \<Rightarrow> [Repo (name rc)])
                 @ [Path ''.'', NameMatch (if fullPath = [] then ''*'' else fullPath)]"
    if asm: "ToString (url (jpd m)) = Inr u
        \<and> (\<forall>rc. repoConfig m = Some rc \<longrightarrow>
               (paths rc = None \<or> paths rc = Some (JArr []))
               \<and> (\<exists>s. ToString (name rc) = Inr s))"
  proof (cases "repoConfig m")
    case None
    then show ?thesis
      using asm
      by (simp add: d f start_job_def job_label_def initial_state_def findInstance_query_def
                    own_path_def repo_criteria_def name_criteria_def runAql_request_def
                    Let_def)
  next
    case (Some rc)
    then obtain s where s: "ToString (name rc) = Inr s"
      and p: "paths rc = None \<or> paths rc = Some (JArr [])"
      using asm by blast
    from p show ?thesis
    proof
      assume "paths rc = None"
      then show ?thesis
        using asm Some s
        by (simp add: d f start_job_def job_label_def initial_state_def
                      findInstance_query_def own_path_def repo_criteria_def name_criteria_def
                      runAql_request_def Let_def)
    next
      assume "paths rc = Some (JArr [])"
      then show ?thesis
        using asm Some s
        by (simp add: d f start_job_def job_label_def initial_state_def
                      findInstance_query_def own_path_def repo_criteria_def name_criteria_def
                      runAql_request_def Let_def)
    qed
  qed
qed

theorem root_level_upload_witness:
  "CHR ''/'' \<notin> set ''file.txt''
   \<and> [''immutable''] \<noteq> []
   \<and> ToString (url (jpd whole_target)) = Inr ''a.jfrog.io''
   \<and> repoConfig whole_target = None
   \<and> getDirectoryPathFromPath ''file.txt'' = []
   \<and> repo_relevant (getDirectoryPathFromPath ''file.txt'')
        \<lparr>name = JStr ''r'', paths = Some (JArr (map JStr [''immutable'']))\<rparr> = Inr False
   \<and> (\<exists>c. start_job (runtime_reading JNull) initial_state ''file.txt'' whole_target
            = Awaiting c
          \<and> find_criteria (aql c) = [Path ''.'', NameMatch ''file.txt''])"
proof -
  have h: "CHR ''/'' \<notin> set ''file.txt''"
    by simp
  have w: "repoConfig whole_target = None"
    by (simp add: whole_target_def)
  have u: "ToString (url (jpd whole_target)) = Inr ''a.jfrog.io''"
    by (simp add: whole_target_def)
  show ?thesis
    using root_level_upload
            [OF h, of "[''immutable'']" "JStr ''r''" whole_target "''a.jfrog.io''"
               "runtime_reading JNull"]
          h w u
    by auto
qed

text \<open>
  C10, as stated, fails: a repository entry whose list of roots holds the empty string
  matches the root-level upload \<open>file.txt\<close>.
\<close>

theorem empty_root_matches_root_level_upload:
  "CHR ''/'' \<notin> set ''file.txt''
   \<and> repo_relevant (getDirectoryPathFromPath ''file.txt'')
        \<lparr>name = JStr ''r'', paths = Some (JArr [JStr []])\<rparr> = Inr True"
  by (simp add: worker_defs)

end
